theory Spec2Isabelle
  imports Main
begin

section \<open>Values and responses\<close>

text \<open>
  The embedding follows \<^verbatim>\<open>sample-node-api/server.js\<close>. JavaScript values that
  travel through request and response bodies are the JSON values plus \<open>undefined\<close>
  (what reading an absent property gives). Numbers are the integers: no handler of the
  file computes with a fraction.
\<close>

datatype jsval =
    JUndefined
  | JNull
  | JBool bool
  | JNum int
  | JStr string
  | JArr "jsval list"
  | JObj "(string \<times> jsval) list"

text \<open>\<^verbatim>\<open>!v\<close>: the falsy values are undefined, null, false, 0 and the empty string.\<close>

fun js_not :: "jsval \<Rightarrow> bool" where
  "js_not JUndefined = True"
| "js_not JNull = True"
| "js_not (JBool b) = (\<not> b)"
| "js_not (JNum n) = (n = 0)"
| "js_not (JStr s) = (s = [])"
| "js_not (JArr xs) = False"
| "js_not (JObj kvs) = False"

text \<open>
  Converting a value to a string, as a template literal does, throws a TypeError for an
  object that has a property \<^verbatim>\<open>toString\<close> of its own: a property parsed from JSON is
  never a function, and the inherited \<^verbatim>\<open>valueOf\<close> gives the object back. Any other
  object converts through \<^verbatim>\<open>Object.prototype.toString\<close>. An array joins the
  conversions of its elements, null and undefined counting as the empty string.
\<close>

fun template_throws :: "jsval \<Rightarrow> bool" where
  "template_throws JUndefined = False"
| "template_throws JNull = False"
| "template_throws (JBool b) = False"
| "template_throws (JNum n) = False"
| "template_throws (JStr s) = False"
| "template_throws (JArr xs) = list_ex template_throws xs"
| "template_throws (JObj kvs) = (map_of kvs ''toString'' \<noteq> None)"

text \<open>
  A JavaScript number is a double. An integer below \<open>2 ^ 53\<close> in magnitude is a double
  as it is; a larger one becomes the nearest double, ties to the even mantissa: the
  \<open>q\<close> below are the leading 53 bits and \<open>r\<close> the bits cut off.
\<close>

function excess_bits :: "int \<Rightarrow> nat" where
  "excess_bits a = (if a < 2 ^ 53 then 0 else Suc (excess_bits (a div 2)))"
  by pat_completeness auto
termination
  by (relation "measure nat") auto

declare excess_bits.simps [simp del]

definition to_double :: "int \<Rightarrow> int" where
  "to_double n =
     (if \<bar>n\<bar> < 2 ^ 53 then n
      else
        (let a = \<bar>n\<bar>;
             e = excess_bits a;
             q = a div 2 ^ e;
             r = a mod 2 ^ e;
             half = 2 ^ (e - 1);
             q' = (if half < r \<or> (r = half \<and> odd q) then q + 1 else q)
         in sgn n * (q' * 2 ^ e)))"

text \<open>
  The number as \<^verbatim>\<open>res.json\<close> writes it: a magnitude from \<open>2 ^ 1024\<close> on is Infinity,
  which JSON writes as null.
\<close>

definition js_number :: "int \<Rightarrow> jsval" where
  "js_number n = (if \<bar>to_double n\<bar> < 2 ^ 1024 then JNum (to_double n) else JNull)"

text \<open>
  \<^verbatim>\<open>req.body\<close> after \<^verbatim>\<open>express.json()\<close> is an object; \<open>property\<close> reads one of its
  properties as the destructuring \<^verbatim>\<open>const { name, email } = req.body\<close> does.
\<close>

type_synonym body = "string \<Rightarrow> jsval option"

definition property :: "body \<Rightarrow> string \<Rightarrow> jsval" where
  "property b k = (case b k of None \<Rightarrow> JUndefined | Some v \<Rightarrow> v)"

text \<open>Reading a property of a response body, used to state what a response reports.\<close>

fun field :: "jsval \<Rightarrow> string \<Rightarrow> jsval" where
  "field (JObj kvs) k = (case map_of kvs k of None \<Rightarrow> JUndefined | Some v \<Rightarrow> v)"
| "field v k = JUndefined"

text \<open>A response is the HTTP status with the JSON body; \<^verbatim>\<open>res.json\<close> alone is status 200.\<close>

type_synonym response = "nat \<times> jsval"

text \<open>What an awaited or called backend operation does: it yields a value or it throws.\<close>

datatype 'a outcome = Returns 'a | Throws string

section \<open>The process state\<close>

record user =
  id' :: nat
  name :: jsval
  email :: jsval

definition user_json :: "user \<Rightarrow> jsval" where
  "user_json u = JObj [(''id'', JNum (int (id' u))), (''name'', name u), (''email'', email u)]"

text \<open>
  Every call the file makes into a backend library is recorded in a trace, in the order
  the calls are issued.
\<close>

datatype call =
    RedisNew
  | RedisGet string
  | RedisIncr string
  | MongooseConnect
  | UserFind
  | UserCreate jsval jsval
  | UserFindById string
  | AmqpConnect
  | CreateChannel
  | AssertQueue string
  | SendToQueue string jsval
  | CheckQueue string

fun toward_broker :: "call \<Rightarrow> bool" where
  "toward_broker AmqpConnect = True"
| "toward_broker CreateChannel = True"
| "toward_broker (AssertQueue q) = True"
| "toward_broker (SendToQueue q m) = True"
| "toward_broker (CheckQueue q) = True"
| "toward_broker c = False"

fun toward_mongo :: "call \<Rightarrow> bool" where
  "toward_mongo MongooseConnect = True"
| "toward_mongo UserFind = True"
| "toward_mongo (UserCreate n e) = True"
| "toward_mongo (UserFindById i) = True"
| "toward_mongo c = False"

fun toward_redis :: "call \<Rightarrow> bool" where
  "toward_redis RedisNew = True"
| "toward_redis (RedisGet k) = True"
| "toward_redis (RedisIncr k) = True"
| "toward_redis c = False"

datatype redis_client = RedisClient

datatype channel = Channel

text \<open>
  Where \<^verbatim>\<open>connectRabbitMQ\<close> stands: not yet called, suspended at one of its three
  awaits, past the registration of the connection's \<^verbatim>\<open>error\<close> and \<^verbatim>\<open>close\<close>
  handlers, or returned without a connection.
\<close>

datatype rabbit_progress =
    NotCalled
  | AwaitConnect
  | AwaitCreateChannel
  | AwaitAssertQueue
  | Listening
  | Returned

record config =
  MSMQ_ENABLE :: bool
  MSMQ_QUEUE :: string

text \<open>The configuration when the environment sets neither variable.\<close>

definition default_config :: config where
  "default_config = \<lparr>MSMQ_ENABLE = True, MSMQ_QUEUE = ''task_queue''\<rparr>"

text \<open>
  The module-level variables \<^verbatim>\<open>redis\<close>, \<^verbatim>\<open>mongoConnected\<close>, \<^verbatim>\<open>rabbitChannel\<close>,
  \<^verbatim>\<open>rabbitConnected\<close> and \<^verbatim>\<open>inMemoryUsers\<close>, the progress of the three connect
  functions, the value Redis holds under \<^verbatim>\<open>api_counter\<close> (\<open>None\<close>: no such key) and
  the trace of backend calls.
\<close>

record state =
  redis :: "redis_client option"
  redis_created :: bool
  mongoConnected :: bool
  mongo_connecting :: bool
  rabbitChannel :: "channel option"
  rabbitConnected :: bool
  rabbit_progress :: rabbit_progress
  inMemoryUsers :: "user list"
  api_counter :: "int option"
  io :: "call list"

definition module_vars :: state where
  "module_vars =
     \<lparr>redis = None, redis_created = False,
      mongoConnected = False, mongo_connecting = False,
      rabbitChannel = None, rabbitConnected = False, rabbit_progress = NotCalled,
      inMemoryUsers =
        [\<lparr>id' = 1, name = JStr ''John Doe'', email = JStr ''john@example.com''\<rparr>,
         \<lparr>id' = 2, name = JStr ''Jane Smith'', email = JStr ''jane@example.com''\<rparr>],
      api_counter = None, io = []\<rparr>"

section \<open>Service connections\<close>

text \<open>
  \<^verbatim>\<open>connectRedis\<close> has no await: it runs to its end when called. Loading the library
  or constructing the client may throw; otherwise the client exists from then on and its
  \<^verbatim>\<open>error\<close> handler is attached.
\<close>

definition connectRedis :: "redis_client outcome \<Rightarrow> state \<Rightarrow> state" where
  "connectRedis new_redis s =
     (case new_redis of
        Returns c \<Rightarrow> s\<lparr>redis := Some c, redis_created := True, io := io s @ [RedisNew]\<rparr>
      | Throws e \<Rightarrow> s\<lparr>redis := None\<rparr>)"

definition redis_on_error :: "state \<Rightarrow> state" where
  "redis_on_error s = s\<lparr>redis := None\<rparr>"

text \<open>\<^verbatim>\<open>connectMongo\<close> up to its await, and from the await on.\<close>

definition connectMongo :: "state \<Rightarrow> state" where
  "connectMongo s = s\<lparr>mongo_connecting := True, io := io s @ [MongooseConnect]\<rparr>"

definition connectMongo_resume :: "unit outcome \<Rightarrow> state \<Rightarrow> state" where
  "connectMongo_resume connected s =
     (case connected of
        Returns u \<Rightarrow> s\<lparr>mongoConnected := True, mongo_connecting := False\<rparr>
      | Throws e \<Rightarrow> s\<lparr>mongoConnected := False, mongo_connecting := False\<rparr>)"

text \<open>
  \<^verbatim>\<open>connectRabbitMQ\<close> up to its first await, and from each await to the next. The
  channel variable is assigned when \<^verbatim>\<open>createChannel\<close> resolves, the flag after
  \<^verbatim>\<open>assertQueue\<close> resolves; a throw at any of the three awaits lands in the one catch.
\<close>

definition connectRabbitMQ :: "config \<Rightarrow> state \<Rightarrow> state" where
  "connectRabbitMQ cfg s =
     (if \<not> MSMQ_ENABLE cfg then s\<lparr>rabbit_progress := Returned\<rparr>
      else s\<lparr>rabbit_progress := AwaitConnect, io := io s @ [AmqpConnect]\<rparr>)"

definition connectRabbitMQ_catch :: "state \<Rightarrow> state" where
  "connectRabbitMQ_catch s =
     s\<lparr>rabbitConnected := False, rabbitChannel := None, rabbit_progress := Returned\<rparr>"

definition connectRabbitMQ_resume :: "config \<Rightarrow> unit outcome \<Rightarrow> state \<Rightarrow> state" where
  "connectRabbitMQ_resume cfg settled s =
     (case rabbit_progress s of
        AwaitConnect \<Rightarrow>
          (case settled of
             Returns u \<Rightarrow> s\<lparr>rabbit_progress := AwaitCreateChannel, io := io s @ [CreateChannel]\<rparr>
           | Throws e \<Rightarrow> connectRabbitMQ_catch s)
      | AwaitCreateChannel \<Rightarrow>
          (case settled of
             Returns u \<Rightarrow>
               s\<lparr>rabbitChannel := Some Channel, rabbit_progress := AwaitAssertQueue,
                 io := io s @ [AssertQueue (MSMQ_QUEUE cfg)]\<rparr>
           | Throws e \<Rightarrow> connectRabbitMQ_catch s)
      | AwaitAssertQueue \<Rightarrow>
          (case settled of
             Returns u \<Rightarrow> s\<lparr>rabbitConnected := True, rabbit_progress := Listening\<rparr>
           | Throws e \<Rightarrow> connectRabbitMQ_catch s)
      | NotCalled \<Rightarrow> s
      | Listening \<Rightarrow> s
      | Returned \<Rightarrow> s)"

definition rabbit_on_error :: "state \<Rightarrow> state" where
  "rabbit_on_error s = s\<lparr>rabbitConnected := False, rabbitChannel := None\<rparr>"

definition rabbit_on_close :: "state \<Rightarrow> state" where
  "rabbit_on_close s = s\<lparr>rabbitConnected := False, rabbitChannel := None\<rparr>"

text \<open>
  Loading the module: the variables are initialised and the three connect functions are
  called in turn, each running up to its first await. What Redis holds at that moment is
  outside the process.
\<close>

definition boot :: "config \<Rightarrow> redis_client outcome \<Rightarrow> int option \<Rightarrow> state" where
  "boot cfg new_redis counter0 =
     connectRabbitMQ cfg (connectMongo (connectRedis new_redis (module_vars\<lparr>api_counter := counter0\<rparr>)))"


section \<open>Callbacks\<close>

text \<open>
  What happens to the process besides requests: a pending connect settles, an event
  handler of a client fires, or another client of Redis writes the key. A handler that is
  not attached, and a connect that is not pending, do nothing.
\<close>

datatype async =
    MongoConnectSettles "unit outcome"
  | RabbitConnectSettles "unit outcome"
  | RedisErrorEvent
  | RabbitErrorEvent
  | RabbitCloseEvent
  | RedisWrittenElsewhere "int option"

fun fire :: "config \<Rightarrow> async \<Rightarrow> state \<Rightarrow> state" where
  "fire cfg (MongoConnectSettles r) s =
     (if mongo_connecting s then connectMongo_resume r s else s)"
| "fire cfg (RabbitConnectSettles r) s = connectRabbitMQ_resume cfg r s"
| "fire cfg RedisErrorEvent s = (if redis_created s then redis_on_error s else s)"
| "fire cfg RabbitErrorEvent s =
     (if rabbit_progress s = Listening then rabbit_on_error s else s)"
| "fire cfg RabbitCloseEvent s =
     (if rabbit_progress s = Listening then rabbit_on_close s else s)"
| "fire cfg (RedisWrittenElsewhere v) s = s\<lparr>api_counter := v\<rparr>"

fun fires :: "config \<Rightarrow> async list \<Rightarrow> state \<Rightarrow> state" where
  "fires cfg [] s = s"
| "fires cfg (a # as) s = fires cfg as (fire cfg a s)"

section \<open>Routes\<close>

text \<open>
  A route handler is a function from the state at the request to the response and the
  state after it. What the backend call of a handler does is an argument of the handler:
  the value a MongoDB or RabbitMQ call yields or the error it throws, and for Redis
  whether the command fails (\<open>Some\<close> of the error message).

  A handler has at most one await. The two handlers that read a connection variable
  after their await, \<^verbatim>\<open>GET /counter\<close> (\<^verbatim>\<open>redis\<close>, for the storage marker) and
  \<^verbatim>\<open>POST /users\<close> (\<^verbatim>\<open>rabbitChannel\<close>, before publishing), take as a further argument
  the callbacks that fire while they are suspended, and read the variable in the state
  these leave. The other handlers read no variable a callback or another request can
  assign after their await (the in-memory list only changes while \<^verbatim>\<open>mongoConnected\<close>
  is false, and then no handler awaits before reading it), so a callback during their
  await is the same as one right after them.

  Clock, process and environment readings (\<^verbatim>\<open>timestamp\<close>, \<^verbatim>\<open>uptime\<close>, memory,
  versions, port) are left out of the bodies and of the published payloads. The log file
  is left out, and appending to it is taken to succeed; building a log line is not: a
  template literal over a value of the request body throws where \<open>template_throws\<close>
  says, inside the handler's \<^verbatim>\<open>try\<close>.
\<close>

text \<open>The \<^verbatim>\<open>services\<close> object that \<^verbatim>\<open>/health\<close> and \<^verbatim>\<open>/info\<close> both build.\<close>

definition services :: "state \<Rightarrow> jsval" where
  "services s =
     JObj [(''redis'', JStr (if redis s \<noteq> None then ''connected'' else ''not connected'')),
           (''mongodb'', JStr (if mongoConnected s then ''connected'' else ''not connected'')),
           (''rabbitmq'', JStr (if rabbitConnected s then ''connected'' else ''not connected''))]"

definition get_health :: "state \<Rightarrow> response \<times> state" where
  "get_health s = ((200, JObj [(''status'', JStr ''healthy''), (''services'', services s)]), s)"

definition get_info :: "state \<Rightarrow> response \<times> state" where
  "get_info s = ((200, JObj [(''services'', services s)]), s)"

subsection \<open>Users\<close>

definition get_users :: "jsval list outcome \<Rightarrow> state \<Rightarrow> response \<times> state" where
  "get_users find_result s =
     (if mongoConnected s then
        (let s1 = s\<lparr>io := io s @ [UserFind]\<rparr> in
         case find_result of
           Returns users \<Rightarrow>
             ((200, JObj [(''success'', JBool True), (''count'', JNum (int (length users))),
                          (''storage'', JStr ''mongodb''), (''data'', JArr users)]), s1)
         | Throws e \<Rightarrow>
             ((200, JObj [(''success'', JBool True),
                          (''count'', JNum (int (length (inMemoryUsers s1)))),
                          (''storage'', JStr ''memory''),
                          (''data'', JArr (map user_json (inMemoryUsers s1)))]), s1))
      else
        ((200, JObj [(''success'', JBool True),
                     (''count'', JNum (int (length (inMemoryUsers s)))),
                     (''storage'', JStr ''memory''),
                     (''data'', JArr (map user_json (inMemoryUsers s)))]), s))"

text \<open>
  \<^verbatim>\<open>POST /users\<close>. Everything after the validation is inside one \<^verbatim>\<open>try\<close>, whose
  catch answers 500: the insert, the log line built from \<^verbatim>\<open>name\<close> and \<^verbatim>\<open>email\<close>,
  the publish call, and in the fallback the log line built after the push.
\<close>

definition post_users ::
  "config \<Rightarrow> body \<Rightarrow> jsval outcome \<Rightarrow> bool outcome \<Rightarrow> async list \<Rightarrow> state
     \<Rightarrow> response \<times> state" where
  "post_users cfg b create_result send_result during s =
     (let name = property b ''name''; email = property b ''email'' in
      if js_not name \<or> js_not email then
        ((400, JObj [(''success'', JBool False), (''error'', JStr ''Name and email are required'')]), s)
      else if mongoConnected s then
        (let s1 = fires cfg during (s\<lparr>io := io s @ [UserCreate name email]\<rparr>) in
         case create_result of
           Throws e \<Rightarrow>
             ((500, JObj [(''success'', JBool False), (''error'', JStr ''Failed to create user'')]), s1)
         | Returns newUser \<Rightarrow>
             (if template_throws name \<or> template_throws email then
                ((500, JObj [(''success'', JBool False),
                             (''error'', JStr ''Failed to create user'')]), s1)
              else if rabbitChannel s1 \<noteq> None then
                (let message = JObj [(''event'', JStr ''user_created''),
                                     (''data'', JObj [(''name'', name), (''email'', email)])];
                     s2 = s1\<lparr>io := io s1 @ [SendToQueue (MSMQ_QUEUE cfg) message]\<rparr> in
                 case send_result of
                   Throws e \<Rightarrow>
                     ((500, JObj [(''success'', JBool False),
                                  (''error'', JStr ''Failed to create user'')]), s2)
                 | Returns sent \<Rightarrow>
                     ((201, JObj [(''success'', JBool True), (''storage'', JStr ''mongodb''),
                                  (''data'', newUser)]), s2))
              else
                ((201, JObj [(''success'', JBool True), (''storage'', JStr ''mongodb''),
                             (''data'', newUser)]), s1)))
      else
        (let newUser = \<lparr>id' = length (inMemoryUsers s) + 1, name = name, email = email\<rparr>;
             s1 = s\<lparr>inMemoryUsers := inMemoryUsers s @ [newUser]\<rparr> in
         if template_throws name \<or> template_throws email then
           ((500, JObj [(''success'', JBool False), (''error'', JStr ''Failed to create user'')]), s1)
         else
           ((201, JObj [(''success'', JBool True), (''storage'', JStr ''memory''),
                        (''data'', user_json newUser)]), s1)))"

text \<open>
  \<^verbatim>\<open>GET /users/:id\<close>: the request carries the route parameter and what \<^verbatim>\<open>parseInt\<close>
  makes of it (\<open>None\<close> for NaN, which equals no id).
\<close>

definition get_user ::
  "string \<Rightarrow> int option \<Rightarrow> jsval option outcome \<Rightarrow> state \<Rightarrow> response \<times> state" where
  "get_user id_param parsed find_result s =
     (if mongoConnected s then
        (let s1 = s\<lparr>io := io s @ [UserFindById id_param]\<rparr> in
         case find_result of
           Throws e \<Rightarrow>
             ((500, JObj [(''success'', JBool False), (''error'', JStr ''Failed to fetch user'')]), s1)
         | Returns None \<Rightarrow>
             ((404, JObj [(''success'', JBool False), (''error'', JStr ''User not found'')]), s1)
         | Returns (Some u) \<Rightarrow>
             ((200, JObj [(''success'', JBool True), (''storage'', JStr ''mongodb''),
                          (''data'', u)]), s1))
      else
        (case find (\<lambda>u. Some (int (id' u)) = parsed) (inMemoryUsers s) of
           None \<Rightarrow>
             ((404, JObj [(''success'', JBool False), (''error'', JStr ''User not found'')]), s)
         | Some u \<Rightarrow>
             ((200, JObj [(''success'', JBool True), (''storage'', JStr ''memory''),
                          (''data'', user_json u)]), s)))"

subsection \<open>Counter\<close>

text \<open>
  The Redis commands the file uses, on the one key it uses. The key is taken to hold an
  integer written in decimal, which is what \<^verbatim>\<open>INCR\<close> leaves there. \<^verbatim>\<open>GET\<close> yields the
  stored value or null. \<^verbatim>\<open>INCR\<close> works on signed 64-bit integers: it adds one (an absent
  key counts as 0) and replies with the new value, which the client hands over as a
  number; on a value out of that range, or at its top, it replies with an error. Either
  command may fail otherwise, and a failed command leaves the key as it was.
\<close>

definition redis_get :: "string option \<Rightarrow> state \<Rightarrow> int option outcome" where
  "redis_get fault s = (case fault of Some e \<Rightarrow> Throws e | None \<Rightarrow> Returns (api_counter s))"

definition redis_incr :: "string option \<Rightarrow> state \<Rightarrow> int outcome \<times> state" where
  "redis_incr fault s =
     (case fault of
        Some e \<Rightarrow> (Throws e, s)
      | None \<Rightarrow>
          (let v = (case api_counter s of None \<Rightarrow> 0 | Some v \<Rightarrow> v) in
           if v < - (2 ^ 63) \<or> 2 ^ 63 \<le> v then
             (Throws ''ERR value is not an integer or out of range'', s)
           else if v = 2 ^ 63 - 1 then
             (Throws ''ERR increment or decrement would overflow'', s)
           else (Returns (to_double (v + 1)), s\<lparr>api_counter := Some (v + 1)\<rparr>)))"

text \<open>
  \<^verbatim>\<open>count = await redis.get('api_counter') || 0\<close> and \<^verbatim>\<open>parseInt(count)\<close>: a stored
  decimal string reads back as its number, null as 0. The storage marker is computed
  from \<^verbatim>\<open>redis\<close> when the response is built, after the await.
\<close>

definition get_counter ::
  "config \<Rightarrow> string option \<Rightarrow> async list \<Rightarrow> state \<Rightarrow> response \<times> state" where
  "get_counter cfg fault during s =
     (let (count, s1) =
        (if redis s \<noteq> None then
           (let s0 = s\<lparr>io := io s @ [RedisGet ''api_counter'']\<rparr>;
                result = redis_get fault s0;
                s1 = fires cfg during s0 in
            case result of
              Returns (Some n) \<Rightarrow> (js_number n, s1)
            | Returns None \<Rightarrow> (JNum 0, s1)
            | Throws e \<Rightarrow> (JNum 0, s1))
         else (JNum 0, s))
      in ((200, JObj [(''success'', JBool True), (''counter'', count),
                      (''storage'', JStr (if redis s1 \<noteq> None then ''redis'' else ''not available''))]),
          s1))"

definition post_counter_increment :: "string option \<Rightarrow> state \<Rightarrow> response \<times> state" where
  "post_counter_increment fault s =
     (if redis s \<noteq> None then
        (let s0 = s\<lparr>io := io s @ [RedisIncr ''api_counter'']\<rparr>;
             (result, s1) = redis_incr fault s0;
             count = (case result of Returns n \<Rightarrow> n | Throws e \<Rightarrow> 0)
         in ((200, JObj [(''success'', JBool True), (''counter'', JNum count),
                         (''storage'', JStr ''redis'')]), s1))
      else
        ((200, JObj [(''success'', JBool False), (''counter'', JNum 0),
                     (''storage'', JStr ''not available''),
                     (''error'', JStr ''Redis not connected'')]), s))"

subsection \<open>Queue\<close>

text \<open>
  \<^verbatim>\<open>POST /queue/publish\<close>: the publish call and the log line built from the message
  are inside one \<^verbatim>\<open>try\<close>, whose catch answers 500.
\<close>

definition post_queue_publish ::
  "config \<Rightarrow> body \<Rightarrow> bool outcome \<Rightarrow> state \<Rightarrow> response \<times> state" where
  "post_queue_publish cfg b send_result s =
     (let message = property b ''message'' in
      if js_not message then
        ((400, JObj [(''success'', JBool False), (''error'', JStr ''Message is required'')]), s)
      else if rabbitChannel s = None then
        ((200, JObj [(''success'', JBool False), (''error'', JStr ''RabbitMQ not connected'')]), s)
      else
        (let payload = JObj [(''event'', JStr ''custom_message''), (''data'', message)];
             s1 = s\<lparr>io := io s @ [SendToQueue (MSMQ_QUEUE cfg) payload]\<rparr> in
         case send_result of
           Returns sent \<Rightarrow>
             (if template_throws message then
                ((500, JObj [(''success'', JBool False),
                             (''error'', JStr ''Failed to publish message'')]), s1)
              else
                ((200, JObj [(''success'', JBool True), (''queue'', JStr (MSMQ_QUEUE cfg)),
                             (''message'', JStr ''Message published successfully'')]), s1))
         | Throws e \<Rightarrow>
             ((500, JObj [(''success'', JBool False),
                          (''error'', JStr ''Failed to publish message'')]), s1)))"

definition get_queue_status ::
  "config \<Rightarrow> (nat \<times> nat) outcome \<Rightarrow> state \<Rightarrow> response \<times> state" where
  "get_queue_status cfg check_result s =
     (if rabbitChannel s = None then
        ((200, JObj [(''success'', JBool True), (''rabbitmq'', JStr ''not connected''),
                     (''queue'', JStr (MSMQ_QUEUE cfg)), (''messageCount'', JNum 0)]), s)
      else
        (let s1 = s\<lparr>io := io s @ [CheckQueue (MSMQ_QUEUE cfg)]\<rparr> in
         case check_result of
           Returns (messageCount, consumerCount) \<Rightarrow>
             ((200, JObj [(''success'', JBool True), (''rabbitmq'', JStr ''connected''),
                          (''queue'', JStr (MSMQ_QUEUE cfg)),
                          (''messageCount'', JNum (int messageCount)),
                          (''consumerCount'', JNum (int consumerCount))]), s1)
         | Throws e \<Rightarrow>
             ((200, JObj [(''success'', JBool True), (''rabbitmq'', JStr ''connected''),
                          (''queue'', JStr (MSMQ_QUEUE cfg)), (''error'', JStr e)]), s1)))"

section \<open>The running process\<close>

datatype request =
    GET_health
  | GET_info
  | GET_users "jsval list outcome"
  | POST_users body "jsval outcome" "bool outcome" "async list"
  | GET_user string "int option" "jsval option outcome"
  | GET_counter "string option" "async list"
  | POST_counter_increment "string option"
  | POST_queue_publish body "bool outcome"
  | GET_queue_status "(nat \<times> nat) outcome"

fun handle :: "config \<Rightarrow> request \<Rightarrow> state \<Rightarrow> response \<times> state" where
  "handle cfg GET_health s = get_health s"
| "handle cfg GET_info s = get_info s"
| "handle cfg (GET_users r) s = get_users r s"
| "handle cfg (POST_users b c p d) s = post_users cfg b c p d s"
| "handle cfg (GET_user i n r) s = get_user i n r s"
| "handle cfg (GET_counter f d) s = get_counter cfg f d s"
| "handle cfg (POST_counter_increment f) s = post_counter_increment f s"
| "handle cfg (POST_queue_publish b p) s = post_queue_publish cfg b p s"
| "handle cfg (GET_queue_status r) s = get_queue_status cfg r s"


text \<open>
  After the module is loaded the process handles requests and callbacks, one after the
  other. The root, logs and not-found handlers read none of the variables above.
\<close>

datatype event = Request request | Async async

fun step :: "config \<Rightarrow> event \<Rightarrow> state \<Rightarrow> state" where
  "step cfg (Request r) s = snd (handle cfg r s)"
| "step cfg (Async a) s = fire cfg a s"

fun run :: "config \<Rightarrow> state \<Rightarrow> event list \<Rightarrow> state" where
  "run cfg s [] = s"
| "run cfg s (e # es) = run cfg (step cfg e s) es"

section \<open>Invariants and observations\<close>

text \<open>The connection variables and the progress of the connect functions.\<close>

definition conn ::
  "state \<Rightarrow> redis_client option \<times> bool \<times> bool \<times> bool \<times> channel option \<times> bool \<times> rabbit_progress"
  where
  "conn s =
     (redis s, redis_created s, mongoConnected s, mongo_connecting s,
      rabbitChannel s, rabbitConnected s, rabbit_progress s)"

text \<open>The broker handle of a process whose enable flag is off.\<close>

definition broker_off :: "state \<Rightarrow> bool" where
  "broker_off s =
     (rabbitChannel s = None \<and> \<not> rabbitConnected s \<and> rabbit_progress s = Returned \<and>
      filter toward_broker (io s) = [])"

text \<open>The flag is only set while the channel variable holds a channel.\<close>

definition channel_inv :: "state \<Rightarrow> bool" where
  "channel_inv s =
     ((rabbitConnected s \<longrightarrow> rabbitChannel s \<noteq> None) \<and>
      (rabbit_progress s = AwaitAssertQueue \<longrightarrow> rabbitChannel s \<noteq> None))"



text \<open>What a response reports for one backend in its \<^verbatim>\<open>services\<close> object.\<close>

definition reported :: "response \<Rightarrow> string \<Rightarrow> jsval" where
  "reported res backend = field (field (snd res) ''services'') backend"

text \<open>The storage marker of a response.\<close>

definition storage :: "response \<Rightarrow> jsval" where
  "storage res = field (snd res) ''storage''"

text \<open>A request takes the live path when its handler issues a backend call.\<close>

definition live_path :: "config \<Rightarrow> request \<Rightarrow> state \<Rightarrow> bool" where
  "live_path cfg r s = (io (snd (handle cfg r s)) \<noteq> io s)"

subsection \<open>Three processes and two bodies\<close>

text \<open>
  A process just loaded, with a Redis client and the counter at 5; the same process once
  MongoDB and RabbitMQ have connected; and a process none of whose backends is there.
\<close>

definition fresh_process :: state where
  "fresh_process = boot default_config (Returns RedisClient) (Some 5)"

definition connected_process :: state where
  "connected_process =
     run default_config fresh_process
       [Async (MongoConnectSettles (Returns ())), Async (RabbitConnectSettles (Returns ())),
        Async (RabbitConnectSettles (Returns ())), Async (RabbitConnectSettles (Returns ()))]"

definition isolated_process :: state where
  "isolated_process =
     run default_config (boot default_config (Throws ''Cannot find module'') None)
       [Async (MongoConnectSettles (Throws ''ECONNREFUSED'')),
        Async (RabbitConnectSettles (Throws ''ECONNREFUSED''))]"

text \<open>
  The body \<^verbatim>\<open>{name: "Ann", email: "ann@x.com"}\<close>, and the body
  \<^verbatim>\<open>{name: {toString: 1}, email: "ann@x.com"}\<close> whose name is truthy and has no
  conversion to a string.
\<close>

definition ann :: body where
  "ann = [''name'' \<mapsto> JStr ''Ann'', ''email'' \<mapsto> JStr ''ann@x.com'']"

definition unprintable :: body where
  "unprintable = [''name'' \<mapsto> JObj [(''toString'', JNum 1)], ''email'' \<mapsto> JStr ''ann@x.com'']"

section \<open>What the handlers leave alone\<close>

lemmas route_defs = get_health_def get_info_def get_users_def post_users_def get_user_def
  get_counter_def post_counter_increment_def post_queue_publish_def get_queue_status_def
  redis_get_def redis_incr_def

lemmas connect_defs = connectRedis_def redis_on_error_def connectMongo_def
  connectMongo_resume_def connectRabbitMQ_def connectRabbitMQ_catch_def
  connectRabbitMQ_resume_def rabbit_on_error_def rabbit_on_close_def

text \<open>The three processes, computed.\<close>

lemma fresh_process_eq:
  "fresh_process =
     \<lparr>redis = Some RedisClient, redis_created = True,
      mongoConnected = False, mongo_connecting = True,
      rabbitChannel = None, rabbitConnected = False, rabbit_progress = AwaitConnect,
      inMemoryUsers =
        [\<lparr>id' = 1, name = JStr ''John Doe'', email = JStr ''john@example.com''\<rparr>,
         \<lparr>id' = 2, name = JStr ''Jane Smith'', email = JStr ''jane@example.com''\<rparr>],
      api_counter = Some 5, io = [RedisNew, MongooseConnect, AmqpConnect]\<rparr>"
  by (simp add: fresh_process_def boot_def module_vars_def default_config_def connect_defs)

lemma connected_process_eq:
  "connected_process =
     \<lparr>redis = Some RedisClient, redis_created = True,
      mongoConnected = True, mongo_connecting = False,
      rabbitChannel = Some Channel, rabbitConnected = True, rabbit_progress = Listening,
      inMemoryUsers =
        [\<lparr>id' = 1, name = JStr ''John Doe'', email = JStr ''john@example.com''\<rparr>,
         \<lparr>id' = 2, name = JStr ''Jane Smith'', email = JStr ''jane@example.com''\<rparr>],
      api_counter = Some 5,
      io = [RedisNew, MongooseConnect, AmqpConnect, CreateChannel, AssertQueue ''task_queue'']\<rparr>"
  by (simp add: connected_process_def fresh_process_eq default_config_def connect_defs)

lemma isolated_process_eq:
  "isolated_process =
     \<lparr>redis = None, redis_created = False,
      mongoConnected = False, mongo_connecting = False,
      rabbitChannel = None, rabbitConnected = False, rabbit_progress = Returned,
      inMemoryUsers =
        [\<lparr>id' = 1, name = JStr ''John Doe'', email = JStr ''john@example.com''\<rparr>,
         \<lparr>id' = 2, name = JStr ''Jane Smith'', email = JStr ''jane@example.com''\<rparr>],
      api_counter = None, io = [MongooseConnect, AmqpConnect]\<rparr>"
  by (simp add: isolated_process_def boot_def module_vars_def default_config_def connect_defs)

lemma ann_fields:
  "property ann ''name'' = JStr ''Ann''" "property ann ''email'' = JStr ''ann@x.com''"
  by (simp_all add: ann_def property_def)

lemma unprintable_fields:
  "property unprintable ''name'' = JObj [(''toString'', JNum 1)]"
  "property unprintable ''email'' = JStr ''ann@x.com''"
  by (simp_all add: unprintable_def property_def)

subsection \<open>Callbacks\<close>

text \<open>
  A callback touches neither the in-memory list nor, but for the calls of the broker
  connect, the trace; what it does to the connection variables depends on them alone.
\<close>

lemma fire_users: "inMemoryUsers (fire cfg a s) = inMemoryUsers s"
  by (cases a) (simp_all add: connect_defs split: outcome.splits rabbit_progress.splits)

lemma fires_users: "inMemoryUsers (fires cfg d s) = inMemoryUsers s"
  by (induction d arbitrary: s) (simp_all add: fire_users)

lemma fire_io: "\<exists>xs. io (fire cfg a s) = io s @ xs"
  by (cases a) (simp_all add: connect_defs split: outcome.splits rabbit_progress.splits)

lemma fires_io: "\<exists>xs. io (fires cfg d s) = io s @ xs"
proof (induction d arbitrary: s)
  case Nil
  then show ?case by simp
next
  case (Cons a d)
  obtain xs where "io (fire cfg a s) = io s @ xs"
    using fire_io by blast
  moreover obtain ys where "io (fires cfg d (fire cfg a s)) = io (fire cfg a s) @ ys"
    using Cons by blast
  ultimately show ?case by simp
qed

lemma fire_conn: "conn s = conn t \<Longrightarrow> conn (fire cfg a s) = conn (fire cfg a t)"
  by (cases a) (simp_all add: conn_def connect_defs split: outcome.splits rabbit_progress.splits)

lemma fires_conn: "conn s = conn t \<Longrightarrow> conn (fires cfg d s) = conn (fires cfg d t)"
proof (induction d arbitrary: s t)
  case Nil
  then show ?case by simp
next
  case (Cons a d)
  from Cons.prems have "conn (fire cfg a s) = conn (fire cfg a t)"
    by (rule fire_conn)
  then have "conn (fires cfg d (fire cfg a s)) = conn (fires cfg d (fire cfg a t))"
    by (rule Cons.IH)
  then show ?case
    by simp
qed

subsection \<open>Handlers\<close>

text \<open>
  No handler assigns a connection variable: after a request they are what the callbacks
  of its await left, and with no such callback what they were.
\<close>

lemma handle_conn: "\<exists>d. conn (snd (handle cfg r s)) = conn (fires cfg d s)"
proof (cases r)
  case (POST_users b c p d)
  have same: "conn (s\<lparr>io := x\<rparr>) = conn s" for x
    by (simp add: conn_def)
  have "conn (snd (handle cfg r s)) = conn (fires cfg d s) \<or>
        conn (snd (handle cfg r s)) = conn (fires cfg [] s)"
    using fires_conn [OF same, of cfg d]
    by (simp add: POST_users post_users_def Let_def conn_def split: outcome.splits)
  then show ?thesis by blast
next
  case (GET_counter f d)
  have same: "conn (s\<lparr>io := x\<rparr>) = conn s" for x
    by (simp add: conn_def)
  have "conn (snd (handle cfg r s)) = conn (fires cfg d s) \<or>
        conn (snd (handle cfg r s)) = conn (fires cfg [] s)"
    using fires_conn [OF same, of cfg d]
    by (simp add: GET_counter get_counter_def redis_get_def Let_def conn_def
          split: outcome.splits option.splits)
  then show ?thesis by blast
next
  case GET_health
  have "conn (snd (handle cfg r s)) = conn (fires cfg [] s)"
    by (simp add: GET_health route_defs)
  then show ?thesis by blast
next
  case GET_info
  have "conn (snd (handle cfg r s)) = conn (fires cfg [] s)"
    by (simp add: GET_info route_defs)
  then show ?thesis by blast
next
  case (GET_users x)
  have "conn (snd (handle cfg r s)) = conn (fires cfg [] s)"
    by (simp add: GET_users get_users_def Let_def conn_def split: outcome.splits)
  then show ?thesis by blast
next
  case (GET_user i n x)
  have "conn (snd (handle cfg r s)) = conn (fires cfg [] s)"
    by (simp add: GET_user get_user_def Let_def conn_def split: outcome.splits option.splits)
  then show ?thesis by blast
next
  case (POST_counter_increment f)
  have "conn (snd (handle cfg r s)) = conn (fires cfg [] s)"
    by (simp add: POST_counter_increment post_counter_increment_def redis_incr_def Let_def
          conn_def split: option.splits)
  then show ?thesis by blast
next
  case (POST_queue_publish b p)
  have "conn (snd (handle cfg r s)) = conn (fires cfg [] s)"
    by (simp add: POST_queue_publish post_queue_publish_def Let_def conn_def
          split: outcome.splits)
  then show ?thesis by blast
next
  case (GET_queue_status x)
  have "conn (snd (handle cfg r s)) = conn (fires cfg [] s)"
    by (simp add: GET_queue_status get_queue_status_def Let_def conn_def
          split: outcome.splits prod.splits)
  then show ?thesis by blast
qed


text \<open>The list of users only grows, by one record whose id is the length plus one.\<close>

lemma handle_users:
  "inMemoryUsers (snd (handle cfg r s)) = inMemoryUsers s \<or>
   (\<exists>n e. inMemoryUsers (snd (handle cfg r s)) =
            inMemoryUsers s @ [\<lparr>id' = length (inMemoryUsers s) + 1, name = n, email = e\<rparr>])"
  by (cases r)
     (simp_all add: route_defs Let_def fires_users
        split: outcome.splits option.splits prod.splits)

lemma step_users:
  "inMemoryUsers (step cfg ev s) = inMemoryUsers s \<or>
   (\<exists>n e. inMemoryUsers (step cfg ev s) =
            inMemoryUsers s @ [\<lparr>id' = length (inMemoryUsers s) + 1, name = n, email = e\<rparr>])"
proof (cases ev)
  case (Request r)
  then show ?thesis using handle_users [of cfg r s] by simp
next
  case (Async a)
  then show ?thesis by (simp add: fire_users)
qed

text \<open>A valid creation through the fallback stores its record, whatever it answers.\<close>

lemma post_users_memory_state:
  "\<not> js_not (property b ''name'') \<Longrightarrow> \<not> js_not (property b ''email'') \<Longrightarrow>
   \<not> mongoConnected s \<Longrightarrow>
   snd (handle cfg (POST_users b cr sr d) s) =
     s\<lparr>inMemoryUsers := inMemoryUsers s @
         [\<lparr>id' = length (inMemoryUsers s) + 1, name = property b ''name'',
           email = property b ''email''\<rparr>]\<rparr>"
  by (simp add: post_users_def Let_def)

lemma post_users_memory_response:
  "\<not> js_not (property b ''name'') \<Longrightarrow> \<not> js_not (property b ''email'') \<Longrightarrow>
   \<not> mongoConnected s \<Longrightarrow>
   fst (handle cfg (POST_users b cr sr d) s) =
     (if template_throws (property b ''name'') \<or> template_throws (property b ''email'') then
        (500, JObj [(''success'', JBool False), (''error'', JStr ''Failed to create user'')])
      else
        (201, JObj [(''success'', JBool True), (''storage'', JStr ''memory''),
                    (''data'', JObj [(''id'', JNum (int (length (inMemoryUsers s)) + 1)),
                                     (''name'', property b ''name''),
                                     (''email'', property b ''email'')])]))"
  by (simp add: post_users_def Let_def user_json_def)

text \<open>
  The creation of \<^verbatim>\<open>{name: {toString: 1}, email: "ann@x.com"}\<close> in the isolated
  process: the record is stored with id 3 and the log line throws, so the answer is 500.
\<close>

lemma unprintable_creation:
  "handle default_config (POST_users unprintable cr sr d) isolated_process =
     ((500, JObj [(''success'', JBool False), (''error'', JStr ''Failed to create user'')]),
      isolated_process\<lparr>inMemoryUsers := inMemoryUsers isolated_process @
        [\<lparr>id' = 3, name = JObj [(''toString'', JNum 1)], email = JStr ''ann@x.com''\<rparr>]\<rparr>)"
  by (simp add: post_users_def unprintable_fields Let_def) (simp add: isolated_process_eq)

subsection \<open>A disabled broker stays untouched\<close>

lemma broker_off_boot: "\<not> MSMQ_ENABLE cfg \<Longrightarrow> broker_off (boot cfg r c)"
  by (simp add: broker_off_def boot_def module_vars_def connect_defs split: outcome.splits)

lemma broker_off_fire: "broker_off s \<Longrightarrow> broker_off (fire cfg a s)"
  by (cases a) (simp_all add: broker_off_def connect_defs split: outcome.splits)

lemma broker_off_fires: "broker_off s \<Longrightarrow> broker_off (fires cfg d s)"
  by (induction d arbitrary: s) (simp_all add: broker_off_fire)

lemma broker_off_call:
  "broker_off s \<Longrightarrow> \<not> toward_broker c \<Longrightarrow> broker_off (s\<lparr>io := io s @ [c]\<rparr>)"
  by (simp add: broker_off_def)

lemma broker_off_handle: "broker_off s \<Longrightarrow> broker_off (snd (handle cfg r s))"
proof (cases r)
  case (POST_users b c p d)
  assume off: "broker_off s"
  have after: "broker_off (fires cfg d (s\<lparr>io := io s @ [UserCreate x y]\<rparr>))" for x y
    by (rule broker_off_fires, rule broker_off_call [OF off]) simp
  then have "rabbitChannel (fires cfg d (s\<lparr>io := io s @ [UserCreate x y]\<rparr>)) = None" for x y
    by (simp add: broker_off_def)
  with after off show ?thesis
    by (simp add: POST_users post_users_def Let_def split: outcome.splits)
       (simp add: broker_off_def)
next
  case (GET_counter f d)
  assume off: "broker_off s"
  have "broker_off (fires cfg d (s\<lparr>io := io s @ [RedisGet ''api_counter'']\<rparr>))"
    by (rule broker_off_fires, rule broker_off_call [OF off]) simp
  with off show ?thesis
    by (simp add: GET_counter get_counter_def redis_get_def Let_def
          split: outcome.splits option.splits)
qed (simp_all add: route_defs broker_off_def Let_def split: outcome.splits option.splits prod.splits)

lemma broker_off_step: "broker_off s \<Longrightarrow> broker_off (step cfg e s)"
  by (cases e) (simp_all add: broker_off_handle broker_off_fire)

lemma broker_off_run: "broker_off s \<Longrightarrow> broker_off (run cfg s es)"
  by (induction es arbitrary: s) (simp_all add: broker_off_step)

subsection \<open>The flag and the channel\<close>

lemma channel_inv_conn: "conn s = conn t \<Longrightarrow> channel_inv s = channel_inv t"
  by (simp add: conn_def channel_inv_def)

lemma channel_inv_boot: "channel_inv (boot cfg r c)"
  by (simp add: channel_inv_def boot_def module_vars_def connect_defs split: outcome.splits)

lemma channel_inv_fire: "channel_inv s \<Longrightarrow> channel_inv (fire cfg a s)"
  by (cases a)
     (auto simp add: channel_inv_def connect_defs split: outcome.splits rabbit_progress.splits)

lemma channel_inv_fires: "channel_inv s \<Longrightarrow> channel_inv (fires cfg d s)"
  by (induction d arbitrary: s) (simp_all add: channel_inv_fire)

lemma channel_inv_step: "channel_inv s \<Longrightarrow> channel_inv (step cfg e s)"
proof (cases e)
  case (Request r)
  assume inv: "channel_inv s"
  obtain d where "conn (snd (handle cfg r s)) = conn (fires cfg d s)"
    using handle_conn by blast
  then have "channel_inv (snd (handle cfg r s)) = channel_inv (fires cfg d s)"
    by (rule channel_inv_conn)
  with inv Request show ?thesis
    by (simp add: channel_inv_fires)
next
  case (Async a)
  assume "channel_inv s"
  with Async show ?thesis
    by (simp add: channel_inv_fire)
qed

lemma channel_inv_run: "channel_inv s \<Longrightarrow> channel_inv (run cfg s es)"
  by (induction es arbitrary: s) (simp_all add: channel_inv_step)

subsection \<open>The ids of the in-memory users\<close>







subsection \<open>The seeded records\<close>

lemma boot_users: "inMemoryUsers (boot cfg r c) = inMemoryUsers module_vars"
  by (simp add: boot_def connect_defs split: outcome.splits)

lemma seed_prefix_step:
  assumes "take 2 (inMemoryUsers s) = inMemoryUsers module_vars"
  shows "take 2 (inMemoryUsers (step cfg ev s)) = inMemoryUsers module_vars"
proof -
  have "length (take 2 (inMemoryUsers s)) = 2"
    unfolding assms by (simp add: module_vars_def)
  then have "2 \<le> length (inMemoryUsers s)"
    by simp
  then show ?thesis
    using step_users [of cfg ev s] assms by auto
qed

lemma seed_prefix_run:
  "take 2 (inMemoryUsers s) = inMemoryUsers module_vars \<Longrightarrow>
   take 2 (inMemoryUsers (run cfg s es)) = inMemoryUsers module_vars"
  by (induction es arbitrary: s) (simp_all add: seed_prefix_step)

subsection \<open>Numbers\<close>

lemma to_double_small: "\<bar>n\<bar> < 2 ^ 53 \<Longrightarrow> to_double n = n"
  by (simp add: to_double_def)

section \<open>The broker enable flag\<close>

text \<open>
  C1, as the code has it. With \<^verbatim>\<open>MSMQ_ENABLE\<close> off, however the process runs after
  the module is loaded, no call toward the broker is ever issued, and \<^verbatim>\<open>GET /health\<close>
  and \<^verbatim>\<open>GET /info\<close> report the broker as \<^verbatim>\<open>not connected\<close>: the file has no status
  \<^verbatim>\<open>disabled\<close>.
\<close>

theorem disabled_broker_untouched_and_not_connected:
  assumes "\<not> MSMQ_ENABLE cfg"
  shows "filter toward_broker (io (run cfg (boot cfg r c) es)) = [] \<and>
         reported (fst (handle cfg GET_health (run cfg (boot cfg r c) es))) ''rabbitmq''
           = JStr ''not connected'' \<and>
         reported (fst (handle cfg GET_info (run cfg (boot cfg r c) es))) ''rabbitmq''
           = JStr ''not connected''"
  using broker_off_run [OF broker_off_boot [OF assms], of cfg r c es]
  by (simp add: broker_off_def get_health_def get_info_def services_def reported_def)

text \<open>
  An instance: the flag off, then a publish request, a queue status request and a user
  creation.
\<close>

theorem disabled_broker_untouched_and_not_connected_witness:
  "\<not> MSMQ_ENABLE (default_config\<lparr>MSMQ_ENABLE := False\<rparr>) \<and>
   filter toward_broker
     (io (run (default_config\<lparr>MSMQ_ENABLE := False\<rparr>)
            (boot (default_config\<lparr>MSMQ_ENABLE := False\<rparr>) (Returns RedisClient) None)
            [Request (POST_queue_publish [''message'' \<mapsto> JStr ''hello''] (Returns True)),
             Request (GET_queue_status (Returns (0, 0))),
             Async (MongoConnectSettles (Returns ())),
             Request (POST_users ann (Returns JNull) (Returns True) [])])) = [] \<and>
   reported
     (fst (handle (default_config\<lparr>MSMQ_ENABLE := False\<rparr>) GET_health
        (run (default_config\<lparr>MSMQ_ENABLE := False\<rparr>)
           (boot (default_config\<lparr>MSMQ_ENABLE := False\<rparr>) (Returns RedisClient) None)
           [Request (POST_queue_publish [''message'' \<mapsto> JStr ''hello''] (Returns True)),
            Request (GET_queue_status (Returns (0, 0))),
            Async (MongoConnectSettles (Returns ())),
            Request (POST_users ann (Returns JNull) (Returns True) [])]))) ''rabbitmq''
     = JStr ''not connected''"
  using disabled_broker_untouched_and_not_connected
    [of "default_config\<lparr>MSMQ_ENABLE := False\<rparr>" "Returns RedisClient" None
        "[Request (POST_queue_publish [''message'' \<mapsto> JStr ''hello''] (Returns True)),
          Request (GET_queue_status (Returns (0, 0))),
          Async (MongoConnectSettles (Returns ())),
          Request (POST_users ann (Returns JNull) (Returns True) [])]"]
  by (simp add: default_config_def)

text \<open>
  The claim as written fails: in a process loaded with the flag off, \<^verbatim>\<open>GET /health\<close>
  does not report \<^verbatim>\<open>disabled\<close> for the broker.
\<close>

theorem disabled_broker_reported_disabled_counterexample:
  "\<not> MSMQ_ENABLE (default_config\<lparr>MSMQ_ENABLE := False\<rparr>) \<and>
   reported
     (fst (handle (default_config\<lparr>MSMQ_ENABLE := False\<rparr>) GET_health
        (boot (default_config\<lparr>MSMQ_ENABLE := False\<rparr>) (Returns RedisClient) None))) ''rabbitmq''
     \<noteq> JStr ''disabled''"
  by (simp add: default_config_def boot_def module_vars_def connect_defs get_health_def
        services_def reported_def)

section \<open>A live attempt that raises\<close>




section \<open>Publishing while creating a user\<close>

text \<open>
  C3, at the failing input. With MongoDB and RabbitMQ connected, a valid creation whose
  record is stored and whose publish call then throws is answered with status 500 and
  \<^verbatim>\<open>Failed to create user\<close>, after the insert was issued.
\<close>

theorem create_user_fails_when_publish_throws:
  "fst (handle default_config
          (POST_users ann (Returns (JObj [(''name'', JStr ''Ann''), (''email'', JStr ''ann@x.com'')]))
             (Throws ''Channel closed'') [])
          connected_process) =
     (500, JObj [(''success'', JBool False), (''error'', JStr ''Failed to create user'')]) \<and>
   io (snd (handle default_config
          (POST_users ann (Returns (JObj [(''name'', JStr ''Ann''), (''email'', JStr ''ann@x.com'')]))
             (Throws ''Channel closed'') [])
          connected_process)) =
     io connected_process @
       [UserCreate (JStr ''Ann'') (JStr ''ann@x.com''),
        SendToQueue ''task_queue''
          (JObj [(''event'', JStr ''user_created''),
                 (''data'', JObj [(''name'', JStr ''Ann''), (''email'', JStr ''ann@x.com'')])])]"
  by (simp add: connected_process_eq post_users_def ann_fields default_config_def Let_def)

section \<open>Incrementing the counter\<close>

text \<open>
  C4, at the failing input. With the Redis client set, an increment whose command fails
  is answered with success, counter 0 and storage \<^verbatim>\<open>redis\<close>.
\<close>

theorem increment_error_answered_as_success:
  "redis connected_process \<noteq> None \<and>
   fst (handle default_config
          (POST_counter_increment (Some ''ERR value is not an integer or out of range''))
          connected_process) =
     (200, JObj [(''success'', JBool True), (''counter'', JNum 0), (''storage'', JStr ''redis'')])"
  by (simp add: connected_process_eq post_counter_increment_def redis_incr_def)

section \<open>Ids of the in-memory users\<close>



section \<open>Incrementing with and without Redis\<close>

text \<open>
  C6. With the Redis client set, the counter at 5 and the command succeeding, an
  increment request is answered with counter 6 and storage \<^verbatim>\<open>redis\<close>, and the counter
  is 6 afterwards. With the Redis client null at the start of the request, the answer is
  the failure result \<^verbatim>\<open>Redis not connected\<close> with \<^verbatim>\<open>success\<close> false, and nothing is
  changed or called.
\<close>

theorem increment_live_or_refused:
  "(redis s \<noteq> None \<and> api_counter s = Some 5 \<longrightarrow>
      fst (handle cfg (POST_counter_increment None) s) =
        (200, JObj [(''success'', JBool True), (''counter'', JNum 6),
                    (''storage'', JStr ''redis'')]) \<and>
      api_counter (snd (handle cfg (POST_counter_increment None) s)) = Some 6) \<and>
   (redis s = None \<longrightarrow>
      handle cfg (POST_counter_increment f) s =
        ((200, JObj [(''success'', JBool False), (''counter'', JNum 0),
                     (''storage'', JStr ''not available''),
                     (''error'', JStr ''Redis not connected'')]), s))"
  by (simp add: post_counter_increment_def redis_incr_def to_double_small Let_def)

text \<open>An instance of each half: the connected process and the isolated one.\<close>

theorem increment_live_or_refused_witness:
  "redis connected_process \<noteq> None \<and> api_counter connected_process = Some 5 \<and>
   fst (handle default_config (POST_counter_increment None) connected_process) =
     (200, JObj [(''success'', JBool True), (''counter'', JNum 6), (''storage'', JStr ''redis'')]) \<and>
   redis isolated_process = None \<and>
   handle default_config (POST_counter_increment None) isolated_process =
     ((200, JObj [(''success'', JBool False), (''counter'', JNum 0),
                  (''storage'', JStr ''not available''),
                  (''error'', JStr ''Redis not connected'')]), isolated_process)"
proof -
  have up: "redis connected_process \<noteq> None" "api_counter connected_process = Some 5"
    by (simp_all add: connected_process_eq)
  have down: "redis isolated_process = None"
    by (simp add: isolated_process_eq)
  show ?thesis
    using increment_live_or_refused [of connected_process default_config None]
      increment_live_or_refused [of isolated_process default_config None]
      up down
    by simp
qed

section \<open>Reported status and session\<close>

text \<open>
  C7. In every state the process reaches, \<^verbatim>\<open>GET /health\<close> and \<^verbatim>\<open>GET /info\<close> report
  the broker as \<^verbatim>\<open>connected\<close> only while the channel variable is not null, and Redis as
  \<^verbatim>\<open>connected\<close> only while the client variable is not null.
\<close>

theorem connected_report_has_session:
  assumes "s = run cfg (boot cfg r c) es"
  shows "(reported (fst (handle cfg GET_health s)) ''rabbitmq'' = JStr ''connected''
            \<longrightarrow> rabbitChannel s \<noteq> None) \<and>
         (reported (fst (handle cfg GET_info s)) ''rabbitmq'' = JStr ''connected''
            \<longrightarrow> rabbitChannel s \<noteq> None) \<and>
         (reported (fst (handle cfg GET_health s)) ''redis'' = JStr ''connected''
            \<longrightarrow> redis s \<noteq> None) \<and>
         (reported (fst (handle cfg GET_info s)) ''redis'' = JStr ''connected''
            \<longrightarrow> redis s \<noteq> None)"
proof -
  have "channel_inv s"
    unfolding assms by (rule channel_inv_run [OF channel_inv_boot])
  then show ?thesis
    by (simp add: channel_inv_def get_health_def get_info_def services_def reported_def)
qed

text \<open>An instance: the connected process reports both as connected and holds both.\<close>

theorem connected_report_has_session_witness:
  "reported (fst (handle default_config GET_health connected_process)) ''rabbitmq''
     = JStr ''connected'' \<and>
   rabbitChannel connected_process \<noteq> None \<and>
   reported (fst (handle default_config GET_health connected_process)) ''redis''
     = JStr ''connected'' \<and>
   redis connected_process \<noteq> None"
proof -
  have p: "connected_process =
      run default_config (boot default_config (Returns RedisClient) (Some 5))
        [Async (MongoConnectSettles (Returns ())), Async (RabbitConnectSettles (Returns ())),
         Async (RabbitConnectSettles (Returns ())), Async (RabbitConnectSettles (Returns ()))]"
    by (simp only: connected_process_def fresh_process_def)
  have shown:
    "reported (fst (handle default_config GET_health connected_process)) ''rabbitmq''
       = JStr ''connected''"
    "reported (fst (handle default_config GET_health connected_process)) ''redis''
       = JStr ''connected''"
    by (simp_all add: connected_process_eq get_health_def services_def reported_def)
  show ?thesis
    using connected_report_has_session [OF p] shown by blast
qed

section \<open>The path of a request\<close>

text \<open>
  C8. Whether a request takes the live path is the value its backend's variable has when
  the request is handled, and nothing else: \<^verbatim>\<open>mongoConnected\<close> for the user reads,
  \<^verbatim>\<open>redis\<close> for the counter, \<^verbatim>\<open>rabbitChannel\<close> for the queue status, and for a
  valid body \<^verbatim>\<open>mongoConnected\<close> for the user creation and \<^verbatim>\<open>rabbitChannel\<close> for the
  publish request; the storage marker follows. So when \<^verbatim>\<open>mongoConnected\<close> is false at
  one \<^verbatim>\<open>GET /users\<close> and an event then sets it, the next \<^verbatim>\<open>GET /users\<close> queries the
  store.
\<close>

theorem path_chosen_by_current_flag:
  "live_path cfg (GET_users fr) s = mongoConnected s \<and>
   live_path cfg (GET_user i n ur) s = mongoConnected s \<and>
   live_path cfg (GET_counter f d) s = (redis s \<noteq> None) \<and>
   live_path cfg (POST_counter_increment f) s = (redis s \<noteq> None) \<and>
   live_path cfg (GET_queue_status qr) s = (rabbitChannel s \<noteq> None) \<and>
   (\<not> js_not (property b ''name'') \<and> \<not> js_not (property b ''email'') \<longrightarrow>
      live_path cfg (POST_users b cr sr d) s = mongoConnected s) \<and>
   (\<not> js_not (property b ''message'') \<longrightarrow>
      live_path cfg (POST_queue_publish b sr) s = (rabbitChannel s \<noteq> None)) \<and>
   (mongoConnected s \<longrightarrow> storage (fst (handle cfg (GET_users (Returns us)) s)) = JStr ''mongodb'') \<and>
   (\<not> mongoConnected s \<longrightarrow> storage (fst (handle cfg (GET_users fr) s)) = JStr ''memory'') \<and>
   (redis s \<noteq> None \<longrightarrow> storage (fst (handle cfg (POST_counter_increment f) s)) = JStr ''redis'') \<and>
   (redis s = None \<longrightarrow>
      storage (fst (handle cfg (POST_counter_increment f) s)) = JStr ''not available'') \<and>
   (\<not> mongoConnected s \<and> mongoConnected (step cfg ev (step cfg (Request (GET_users fr)) s)) \<longrightarrow>
      \<not> live_path cfg (GET_users fr) s \<and>
      live_path cfg (GET_users fr') (step cfg ev (step cfg (Request (GET_users fr)) s)) \<and>
      storage (fst (handle cfg (GET_users (Returns us))
                      (step cfg ev (step cfg (Request (GET_users fr)) s)))) = JStr ''mongodb'')"
proof -
  have grows: "\<exists>xs. io (fires cfg d (t\<lparr>io := io t @ [k]\<rparr>)) = io t @ k # xs" for t k
  proof -
    obtain xs where "io (fires cfg d (t\<lparr>io := io t @ [k]\<rparr>)) = io (t\<lparr>io := io t @ [k]\<rparr>) @ xs"
      using fires_io by blast
    then show ?thesis by simp
  qed
  have users: "live_path cfg (GET_users x) t = mongoConnected t" for x t
    by (simp add: live_path_def get_users_def Let_def split: outcome.splits)
  have user: "live_path cfg (GET_user i n ur) s = mongoConnected s"
    by (simp add: live_path_def get_user_def Let_def split: outcome.splits option.splits)
  have counter: "live_path cfg (GET_counter f d) s = (redis s \<noteq> None)"
  proof -
    obtain xs where
      "io (fires cfg d (s\<lparr>io := io s @ [RedisGet ''api_counter'']\<rparr>)) =
       io s @ RedisGet ''api_counter'' # xs"
      using grows by blast
    then show ?thesis
      by (simp add: live_path_def get_counter_def redis_get_def Let_def
            split: outcome.splits option.splits)
  qed
  have increment: "live_path cfg (POST_counter_increment f) s = (redis s \<noteq> None)"
    by (simp add: live_path_def post_counter_increment_def redis_incr_def Let_def
          split: option.splits)
  have status: "live_path cfg (GET_queue_status qr) s = (rabbitChannel s \<noteq> None)"
    by (simp add: live_path_def get_queue_status_def Let_def split: outcome.splits)
  have create: "\<not> js_not (property b ''name'') \<and> \<not> js_not (property b ''email'') \<longrightarrow>
      live_path cfg (POST_users b cr sr d) s = mongoConnected s"
  proof -
    obtain xs where
      "io (fires cfg d (s\<lparr>io := io s @ [UserCreate (property b ''name'') (property b ''email'')]\<rparr>)) =
       io s @ UserCreate (property b ''name'') (property b ''email'') # xs"
      using grows by blast
    then show ?thesis
      by (simp add: live_path_def post_users_def Let_def split: outcome.splits)
  qed
  have publish: "\<not> js_not (property b ''message'') \<longrightarrow>
      live_path cfg (POST_queue_publish b sr) s = (rabbitChannel s \<noteq> None)"
    by (simp add: live_path_def post_queue_publish_def Let_def split: outcome.splits)
  have live_marker:
    "mongoConnected t \<longrightarrow> storage (fst (handle cfg (GET_users (Returns us)) t)) = JStr ''mongodb''"
    for t
    by (simp add: storage_def get_users_def Let_def)
  have memory_marker:
    "\<not> mongoConnected s \<longrightarrow> storage (fst (handle cfg (GET_users fr) s)) = JStr ''memory''"
    by (simp add: storage_def get_users_def)
  have redis_marker:
    "redis s \<noteq> None \<longrightarrow> storage (fst (handle cfg (POST_counter_increment f) s)) = JStr ''redis''"
    by (simp add: storage_def post_counter_increment_def redis_incr_def Let_def
          split: option.splits)
  have refused_marker:
    "redis s = None \<longrightarrow>
       storage (fst (handle cfg (POST_counter_increment f) s)) = JStr ''not available''"
    by (simp add: storage_def post_counter_increment_def)
  from users user counter increment status create publish live_marker memory_marker
    redis_marker refused_marker
  show ?thesis by simp
qed

text \<open>
  An instance: a request to the fresh process is served from memory, MongoDB connects,
  and the next request is served from MongoDB.
\<close>

theorem path_chosen_by_current_flag_witness:
  "\<not> mongoConnected fresh_process \<and>
   mongoConnected
     (step default_config (Async (MongoConnectSettles (Returns ())))
        (step default_config (Request (GET_users (Returns []))) fresh_process)) \<and>
   storage (fst (handle default_config (GET_users (Returns [])) fresh_process)) = JStr ''memory'' \<and>
   \<not> live_path default_config (GET_users (Returns [])) fresh_process \<and>
   live_path default_config (GET_users (Returns []))
     (step default_config (Async (MongoConnectSettles (Returns ())))
        (step default_config (Request (GET_users (Returns []))) fresh_process)) \<and>
   storage (fst (handle default_config (GET_users (Returns []))
     (step default_config (Async (MongoConnectSettles (Returns ())))
        (step default_config (Request (GET_users (Returns []))) fresh_process)))) = JStr ''mongodb''"
proof -
  have before: "\<not> mongoConnected fresh_process"
    by (simp add: fresh_process_eq)
  have after: "mongoConnected
     (step default_config (Async (MongoConnectSettles (Returns ())))
        (step default_config (Request (GET_users (Returns []))) fresh_process))"
    by (simp add: fresh_process_eq get_users_def connectMongo_resume_def)
  show ?thesis
    using path_chosen_by_current_flag
            [where cfg = default_config and fr = "Returns []" and s = fresh_process
               and us = "[]" and ev = "Async (MongoConnectSettles (Returns ()))"
               and fr' = "Returns []"]
          before after
    by blast
qed

section \<open>Validation\<close>

text \<open>
  C9. A user creation whose body lacks \<^verbatim>\<open>name\<close> or \<^verbatim>\<open>email\<close>, and a publish request
  whose body lacks \<^verbatim>\<open>message\<close>, is answered with status 400 and the state is the one
  before the request: no variable is assigned and no backend call is issued.
\<close>

theorem missing_field_rejected_untouched:
  "(b ''name'' = None \<or> b ''email'' = None \<longrightarrow>
      handle cfg (POST_users b cr sr d) s =
        ((400, JObj [(''success'', JBool False),
                     (''error'', JStr ''Name and email are required'')]), s)) \<and>
   (b ''message'' = None \<longrightarrow>
      handle cfg (POST_queue_publish b sr) s =
        ((400, JObj [(''success'', JBool False), (''error'', JStr ''Message is required'')]), s))"
  by (auto simp add: post_users_def post_queue_publish_def property_def Let_def)

text \<open>An instance: a body with a name only, sent to both routes of the connected process.\<close>

theorem missing_field_rejected_untouched_witness:
  "[''name'' \<mapsto> JStr ''Ann''] ''email'' = None \<and>
   handle default_config
     (POST_users [''name'' \<mapsto> JStr ''Ann''] (Returns JNull) (Returns True) []) connected_process =
     ((400, JObj [(''success'', JBool False),
                  (''error'', JStr ''Name and email are required'')]), connected_process) \<and>
   [''name'' \<mapsto> JStr ''Ann''] ''message'' = None \<and>
   handle default_config
     (POST_queue_publish [''name'' \<mapsto> JStr ''Ann''] (Returns True)) connected_process =
     ((400, JObj [(''success'', JBool False), (''error'', JStr ''Message is required'')]),
      connected_process)"
  using missing_field_rejected_untouched
          [where b = "[''name'' \<mapsto> JStr ''Ann'']" and cfg = default_config
             and cr = "Returns JNull" and sr = "Returns True" and d = "[]"
             and s = connected_process]
  by simp

section \<open>The seeded records\<close>

text \<open>
  C10. When the module is loaded the in-memory list holds exactly the two records with
  ids 1 and 2 and the document store is not connected; in every state the process
  reaches the list still starts with these two records, so it is never empty; and the
  first valid creation handled through the fallback, the list still being the seeded
  one, stores its record with id 3, which the response reports with storage
  \<^verbatim>\<open>memory\<close> whenever \<^verbatim>\<open>name\<close> and \<^verbatim>\<open>email\<close> convert to strings.
\<close>

theorem substitute_seeded_with_two:
  assumes "s = run cfg (boot cfg r c) es"
  shows "inMemoryUsers (boot cfg r c) =
           [\<lparr>id' = 1, name = JStr ''John Doe'', email = JStr ''john@example.com''\<rparr>,
            \<lparr>id' = 2, name = JStr ''Jane Smith'', email = JStr ''jane@example.com''\<rparr>] \<and>
         \<not> mongoConnected (boot cfg r c) \<and>
         take 2 (inMemoryUsers s) = inMemoryUsers (boot cfg r c) \<and>
         inMemoryUsers s \<noteq> [] \<and>
         (inMemoryUsers s = inMemoryUsers (boot cfg r c) \<and> \<not> mongoConnected s \<and>
          \<not> js_not (property b ''name'') \<and> \<not> js_not (property b ''email'')
            \<longrightarrow> inMemoryUsers (snd (handle cfg (POST_users b cr sr d) s)) =
                  inMemoryUsers (boot cfg r c) @
                    [\<lparr>id' = 3, name = property b ''name'', email = property b ''email''\<rparr>] \<and>
                (\<not> template_throws (property b ''name'') \<and>
                 \<not> template_throws (property b ''email'')
                   \<longrightarrow> fst (handle cfg (POST_users b cr sr d) s) =
                         (201, JObj [(''success'', JBool True), (''storage'', JStr ''memory''),
                                     (''data'', JObj [(''id'', JNum 3),
                                                      (''name'', property b ''name''),
                                                      (''email'', property b ''email'')])])))"
proof -
  have seed: "inMemoryUsers (boot cfg r c) =
           [\<lparr>id' = 1, name = JStr ''John Doe'', email = JStr ''john@example.com''\<rparr>,
            \<lparr>id' = 2, name = JStr ''Jane Smith'', email = JStr ''jane@example.com''\<rparr>]"
    by (simp add: boot_users) (simp add: module_vars_def)
  have down: "\<not> mongoConnected (boot cfg r c)"
    by (simp add: boot_def module_vars_def connect_defs split: outcome.splits)
  have pre: "take 2 (inMemoryUsers s) = inMemoryUsers (boot cfg r c)"
    unfolding assms boot_users by (rule seed_prefix_run) (simp add: boot_users module_vars_def)
  have ne: "inMemoryUsers s \<noteq> []"
    using pre seed by auto
  have third: "inMemoryUsers s = inMemoryUsers (boot cfg r c) \<and> \<not> mongoConnected s \<and>
          \<not> js_not (property b ''name'') \<and> \<not> js_not (property b ''email'')
            \<longrightarrow> inMemoryUsers (snd (handle cfg (POST_users b cr sr d) s)) =
                  inMemoryUsers (boot cfg r c) @
                    [\<lparr>id' = 3, name = property b ''name'', email = property b ''email''\<rparr>] \<and>
                (\<not> template_throws (property b ''name'') \<and>
                 \<not> template_throws (property b ''email'')
                   \<longrightarrow> fst (handle cfg (POST_users b cr sr d) s) =
                         (201, JObj [(''success'', JBool True), (''storage'', JStr ''memory''),
                                     (''data'', JObj [(''id'', JNum 3),
                                                      (''name'', property b ''name''),
                                                      (''email'', property b ''email'')])]))"
    using seed by (simp add: post_users_def Let_def user_json_def)
  from seed down pre ne third show ?thesis by blast
qed

text \<open>
  An instance: the first creation in the isolated process, once with the
  specification's request and once with a name that has no conversion to a string.
\<close>

theorem substitute_seeded_with_two_witness:
  "inMemoryUsers isolated_process =
     inMemoryUsers (boot default_config (Throws ''Cannot find module'') None) \<and>
   \<not> mongoConnected isolated_process \<and>
   \<not> js_not (property ann ''name'') \<and> \<not> js_not (property ann ''email'') \<and>
   \<not> template_throws (property ann ''name'') \<and> \<not> template_throws (property ann ''email'') \<and>
   fst (handle default_config (POST_users ann (Throws ''unused'') (Throws ''unused'') [])
          isolated_process) =
     (201, JObj [(''success'', JBool True), (''storage'', JStr ''memory''),
                 (''data'', JObj [(''id'', JNum 3), (''name'', JStr ''Ann''),
                                  (''email'', JStr ''ann@x.com'')])]) \<and>
   \<not> js_not (property unprintable ''name'') \<and> \<not> js_not (property unprintable ''email'') \<and>
   map id' (inMemoryUsers
     (snd (handle default_config (POST_users unprintable (Throws ''unused'') (Throws ''unused'') [])
             isolated_process))) = [1, 2, 3]"
proof -
  have p: "isolated_process =
      run default_config (boot default_config (Throws ''Cannot find module'') None)
        [Async (MongoConnectSettles (Throws ''ECONNREFUSED'')),
         Async (RabbitConnectSettles (Throws ''ECONNREFUSED''))]"
    by (simp only: isolated_process_def)
  have same: "inMemoryUsers isolated_process =
     inMemoryUsers (boot default_config (Throws ''Cannot find module'') None)"
    by (simp add: isolated_process_eq boot_users module_vars_def)
  have down: "\<not> mongoConnected isolated_process"
    by (simp add: isolated_process_eq)
  have seed: "map id' (inMemoryUsers (boot default_config (Throws ''Cannot find module'') None))
      = [1, 2]"
    by (simp add: boot_users module_vars_def)
  show ?thesis
    using substitute_seeded_with_two
            [OF p, where b = ann and cr = "Throws ''unused''" and sr = "Throws ''unused''"
               and d = "[]"]
          substitute_seeded_with_two
            [OF p, where b = unprintable and cr = "Throws ''unused''"
               and sr = "Throws ''unused''" and d = "[]"]
          same down seed
    by (simp add: ann_fields unprintable_fields)
qed

end
